theory Spec2Isabelle
  imports Complex_Main "HOL-Library.AList" "HOL-Library.Log_Nat"
begin

section \<open>Python strings\<close>

text \<open>
  A Python \<open>str\<close> is modelled as a \<open>string\<close>, one \<open>char\<close> per code point
  (code points below 256). \<open>py_lower\<close> is \<open>str.lower()\<close> on that range:
  \<open>A\<close>..\<open>Z\<close> and the Latin-1 capitals (192..222 without the multiplication sign 215)
  move up by 32, every other character stays.
\<close>

definition py_lower_char :: "char \<Rightarrow> char" where
  "py_lower_char c =
     (let n = (of_char c :: nat)
      in if (65 \<le> n \<and> n \<le> 90) \<or> (192 \<le> n \<and> n \<le> 222 \<and> n \<noteq> 215)
         then char_of (n + 32) else c)"

definition py_lower :: "string \<Rightarrow> string" where
  "py_lower s = map py_lower_char s"

text \<open>\<open>s.startswith(p)\<close>.\<close>

fun starts_with :: "string \<Rightarrow> string \<Rightarrow> bool" where
  "starts_with s [] = True"
| "starts_with [] (p # ps) = False"
| "starts_with (c # cs) (p # ps) = (c = p \<and> starts_with cs ps)"

text \<open>\<open>sub in s\<close> for two strings: \<open>sub\<close> starts at some position of \<open>s\<close>.\<close>

fun str_contains :: "string \<Rightarrow> string \<Rightarrow> bool" where
  "str_contains sub [] = (sub = [])"
| "str_contains sub (c # cs) = (starts_with (c # cs) sub \<or> str_contains sub cs)"

text \<open>The spec's "contains": the keyword occurs as a contiguous block.\<close>

definition has_substring :: "string \<Rightarrow> string \<Rightarrow> bool" where
  "has_substring kw s = (\<exists>u v. s = u @ kw @ v)"

text \<open>\<open>str(n)\<close> for a non-negative integer: its decimal digits.\<close>

definition digit_char :: "nat \<Rightarrow> char" where
  "digit_char d = char_of (48 + d)"

fun show_nat :: "nat \<Rightarrow> string" where
  "show_nat n = (if n < 10 then [digit_char n] else show_nat (n div 10) @ [digit_char (n mod 10)])"

declare show_nat.simps [simp del]

section \<open>Token types (blockchain\_service.py)\<close>

datatype TokenType = PROJECT | BUILDING | STOREY | SPACE | COMPONENT

text \<open>\<open>TokenType.value\<close>.\<close>

fun token_type_value :: "TokenType \<Rightarrow> int" where
  "token_type_value PROJECT = 0"
| "token_type_value BUILDING = 1"
| "token_type_value STOREY = 2"
| "token_type_value SPACE = 3"
| "token_type_value COMPONENT = 4"

text \<open>\<open>BlockchainExportService._determine_token_type\<close>: the \<open>if\<close>/\<open>elif\<close> chain in source order.\<close>

definition determine_token_type :: "string \<Rightarrow> TokenType" where
  "determine_token_type ifc_type =
     (let ifc_type_lower = py_lower ifc_type
      in if str_contains ''project'' ifc_type_lower then PROJECT
         else if str_contains ''building'' ifc_type_lower \<and> \<not> str_contains ''storey'' ifc_type_lower
           then BUILDING
         else if str_contains ''storey'' ifc_type_lower \<or> str_contains ''floor'' ifc_type_lower
           then STOREY
         else if str_contains ''space'' ifc_type_lower \<or> str_contains ''room'' ifc_type_lower
                 \<or> str_contains ''zone'' ifc_type_lower
           then SPACE
         else COMPONENT)"

section \<open>Token URIs (blockchain\_models.py)\<close>

datatype py_error = ValueError string | KeyError string | Exception string

text \<open>\<open>str(e)\<close> of a raised exception.\<close>

fun error_str :: "py_error \<Rightarrow> string" where
  "error_str (ValueError m) = m"
| "error_str (KeyError k) = [CHR 0x27] @ k @ [CHR 0x27]"
| "error_str (Exception m) = m"

text \<open>
  \<open>IFCComponentToken\<close>: the identifier fields that the URI encodes. The \<open>ifc_guid\<close>
  field is named \<open>token_ifc_guid\<close> here, since the vertex model has a field of that name too.
\<close>

record IFCComponentToken =
  topologic_vertex_id :: string
  kuzu_element_id :: string
  token_ifc_guid :: string

text \<open>\<open>IFCComponentToken.generate_token_uri\<close>; \<open>if base_url\<close> is false for \<open>None\<close> and for the empty string.\<close>

definition generate_token_uri :: "IFCComponentToken \<Rightarrow> string option \<Rightarrow> string" where
  "generate_token_uri self base_url =
     (if base_url \<noteq> None \<and> base_url \<noteq> Some []
      then the base_url @ ''/element/'' @ kuzu_element_id self @ ''?topologic=''
             @ topologic_vertex_id self @ ''&ifc='' @ token_ifc_guid self
      else ''kuzu://'' @ kuzu_element_id self @ ''/topologic/'' @ topologic_vertex_id self
             @ ''/ifc/'' @ token_ifc_guid self)"

text \<open>
  The regular expressions of \<open>parse_token_uri\<close> are built from literal text and two capturing
  groups: \<open>([^/]+)\<close> and \<open>(.+)\<close>. \<open>re_match\<close> is \<open>re.match\<close> on such a pattern: it matches at
  the start of the string (the end is free), a group is greedy and gives characters back one
  at a time until the rest of the pattern matches, and the result lists the groups' texts.
  Without the DOTALL flag the dot matches every character but the newline.
\<close>

datatype re_item = Lit string | NotSlashPlus | AnyPlus

fun re_class :: "re_item \<Rightarrow> char \<Rightarrow> bool" where
  "re_class NotSlashPlus c = (c \<noteq> CHR ''/'')"
| "re_class AnyPlus c = (c \<noteq> CHR 0x0A)"
| "re_class (Lit l) c = False"

fun first_some :: "(nat \<Rightarrow> 'a option) \<Rightarrow> nat \<Rightarrow> 'a option" where
  "first_some f 0 = None"
| "first_some f (Suc k) = (case f (Suc k) of Some r \<Rightarrow> Some r | None \<Rightarrow> first_some f k)"

primrec re_match :: "re_item list \<Rightarrow> string \<Rightarrow> string list option" where
  "re_match [] s = Some []"
| "re_match (r # rs) s =
     (case r of
        Lit l \<Rightarrow> if starts_with s l then re_match rs (drop (length l) s) else None
      | _ \<Rightarrow> first_some (\<lambda>k. map_option ((#) (take k s)) (re_match rs (drop k s)))
                (length (takeWhile (re_class r) s)))"

text \<open>\<open>r"kuzu://([^/]+)/topologic/([^/]+)/ifc/(.+)"\<close>\<close>

definition kuzu_uri_pattern :: "re_item list" where
  "kuzu_uri_pattern =
     [Lit ''kuzu://'', NotSlashPlus, Lit ''/topologic/'', NotSlashPlus, Lit ''/ifc/'', AnyPlus]"

text \<open>The dictionary \<open>parse_token_uri\<close> returns, with its three keys.\<close>

record parsed_uri =
  kuzu_id :: string
  topologic_id :: string
  ifc_guid_part :: string

text \<open>
  \<open>IFCComponentToken.parse_token_uri\<close>. The HTTP branch runs the standard library's
  \<open>urlparse\<close> and \<open>parse_qs\<close>; \<open>http_ids\<close> stands for what they extract from the URI
  (\<open>None\<close> when one of the three identifiers comes out missing or empty). Every path that
  returns nothing ends in the final \<open>raise ValueError\<close>.
\<close>

definition parse_token_uri :: "(string \<Rightarrow> parsed_uri option) \<Rightarrow> string \<Rightarrow> py_error + parsed_uri" where
  "parse_token_uri http_ids token_uri =
     (if starts_with token_uri ''kuzu://'' then
        (case re_match kuzu_uri_pattern token_uri of
           Some [a, b, c] \<Rightarrow> Inr \<lparr>kuzu_id = a, topologic_id = b, ifc_guid_part = c\<rparr>
         | _ \<Rightarrow> Inl (ValueError (''Unable to parse token URI: '' @ token_uri)))
      else if starts_with token_uri ''http://'' \<or> starts_with token_uri ''https://'' then
        (case http_ids token_uri of
           Some ids \<Rightarrow> Inr ids
         | None \<Rightarrow> Inl (ValueError (''Unable to parse token URI: '' @ token_uri)))
      else Inl (ValueError (''Unable to parse token URI: '' @ token_uri)))"

section \<open>Graph model (topologic\_models.py)\<close>

text \<open>
  A Python dictionary with string keys is a map; a stored value may be Python's \<open>None\<close>,
  so the values are options (\<open>Some None\<close>: the key is present and holds \<open>None\<close>).
  Dictionary values and the derived fields are strings, as the fields' declared type
  \<open>Optional[str]\<close> says. The field \<open>id\<close> is called \<open>vertex_id\<close>.
\<close>

record TopologicVertex =
  vertex_id :: string
  coordinates :: "rat \<times> rat \<times> rat"
  dictionaries :: "string \<rightharpoonup> string option"
  ifc_type :: "string option"
  ifc_guid :: "string option"
  ifc_name :: "string option"

text \<open>
  The loop \<open>for key in keys: if key in d: field = d[key]; break\<close>: the value under the
  first key that is present, and the field's old value when the loop ends without a hit.
\<close>

fun first_alias :: "string list \<Rightarrow> (string \<rightharpoonup> 'a) \<Rightarrow> 'a \<Rightarrow> 'a" where
  "first_alias [] d field = field"
| "first_alias (key # keys) d field =
     (case d key of Some v \<Rightarrow> v | None \<Rightarrow> first_alias keys d field)"

definition type_keys :: "string list" where
  "type_keys = [''IFC_type'', ''ifc_type'', ''IFCType'', ''type'', ''Entity'']"

definition guid_keys :: "string list" where
  "guid_keys = [''IFC_global_id'', ''ifc_guid'', ''IFCGuid'', ''IFC_GUID'', ''GlobalId'', ''guid'']"

definition name_keys :: "string list" where
  "name_keys = [''Name'', ''name'', ''IFC_name'']"

text \<open>\<open>TopologicVertex.extract_ifc_metadata\<close>.\<close>

definition extract_ifc_metadata :: "TopologicVertex \<Rightarrow> TopologicVertex" where
  "extract_ifc_metadata self =
     self\<lparr>ifc_type := first_alias type_keys (dictionaries self) (ifc_type self),
          ifc_guid := first_alias guid_keys (dictionaries self) (ifc_guid self),
          ifc_name := first_alias name_keys (dictionaries self) (ifc_name self)\<rparr>"

record TopologicEdge =
  edge_id :: string
  start_vertex_id :: string
  end_vertex_id :: string
  edge_dictionaries :: "string \<rightharpoonup> string option"
  edge_type :: "string option"
  connection_type :: "string option"
  shared_geometry :: "string option"

text \<open>\<open>TopologicEdge.extract_connection_metadata\<close>.\<close>

definition extract_connection_metadata :: "TopologicEdge \<Rightarrow> TopologicEdge" where
  "extract_connection_metadata self =
     self\<lparr>connection_type := first_alias [''connection_type''] (edge_dictionaries self) (connection_type self),
          edge_type := first_alias [''edge_type''] (edge_dictionaries self) (edge_type self),
          shared_geometry := first_alias [''shared_geometry''] (edge_dictionaries self) (shared_geometry self)\<rparr>"

text \<open>
  The counting dictionary keeps its keys in insertion order: an association list, read
  with a default (\<open>dict.get(k, default)\<close>) and written in place or at the end
  (\<open>AList.update\<close>).
\<close>

definition dict_get :: "('k \<times> 'v) list \<Rightarrow> 'k \<Rightarrow> 'v \<Rightarrow> 'v" where
  "dict_get d k dflt = (case map_of d k of Some v \<Rightarrow> v | None \<Rightarrow> dflt)"

text \<open>Truth value of an \<open>Optional[str]\<close>: false for \<open>None\<close> and for the empty string.\<close>

fun str_truthy :: "string option \<Rightarrow> bool" where
  "str_truthy None = False"
| "str_truthy (Some s) = (s \<noteq> [])"

record TopologicGraph =
  vertices :: "TopologicVertex list"
  edges :: "TopologicEdge list"
  source_file :: "string option"
  processing_method :: "string option"
  creation_timestamp :: "string option"
  vertex_count :: int
  edge_count :: int
  ifc_type_counts :: "(string \<times> int) list"

text \<open>The loop of \<open>update_statistics\<close> over the vertices, with the dictionary it fills.\<close>

fun count_types :: "TopologicVertex list \<Rightarrow> (string \<times> int) list \<Rightarrow> (string \<times> int) list" where
  "count_types [] type_counts = type_counts"
| "count_types (vertex # rest) type_counts =
     count_types rest
       (if str_truthy (ifc_type vertex)
        then AList.update (the (ifc_type vertex))
               (dict_get type_counts (the (ifc_type vertex)) 0 + 1) type_counts
        else type_counts)"

text \<open>\<open>TopologicGraph.update_statistics\<close>.\<close>

definition update_statistics :: "TopologicGraph \<Rightarrow> TopologicGraph" where
  "update_statistics self =
     self\<lparr>vertex_count := int (length (vertices self)),
          edge_count := int (length (edges self)),
          ifc_type_counts := count_types (vertices self) []\<rparr>"

text \<open>\<open>TopologicGraph()\<close>: every field at its default.\<close>

definition empty_graph :: TopologicGraph where
  "empty_graph = \<lparr>vertices = [], edges = [], source_file = None, processing_method = None,
                   creation_timestamp = None, vertex_count = 0, edge_count = 0,
                   ifc_type_counts = []\<rparr>"

section \<open>Python numbers\<close>

text \<open>
  A number is an \<open>int\<close> or a \<open>float\<close>. A float is modelled by the rational it denotes
  (infinities, NaN, overflow and subnormal numbers are left out), and a float operation
  rounds its exact result to the nearest double, ties to even: \<open>round_to_double\<close> keeps
  53 significant bits.
\<close>

datatype pynum = PyInt int | PyFloat rat

definition round_half_even :: "rat \<Rightarrow> int" where
  "round_half_even q =
     (let f = \<lfloor>q\<rfloor>; r = q - of_int f
      in if r < 1 / 2 then f else if 1 / 2 < r then f + 1 else if even f then f else f + 1)"

definition scale2 :: "rat \<Rightarrow> int \<Rightarrow> rat" where
  "scale2 q e = (if 0 \<le> e then q * 2 ^ nat e else q / 2 ^ nat (- e))"

definition double_exponent :: "rat \<Rightarrow> int" where
  "double_exponent q =
     (let (n, d) = quotient_of \<bar>q\<bar>; e0 = bitlen n - bitlen d - 53
      in if 2 ^ 53 \<le> scale2 \<bar>q\<bar> (- e0) then e0 + 1 else e0)"

definition round_to_double :: "rat \<Rightarrow> rat" where
  "round_to_double q =
     (if q = 0 then 0
      else let e = double_exponent q
           in scale2 (of_int (sgn (fst (quotient_of q)) * round_half_even (scale2 \<bar>q\<bar> (- e)))) e)"

text \<open>A float literal of the source text, such as \<open>20.3\<close>.\<close>

definition float_literal :: "rat \<Rightarrow> pynum" where
  "float_literal q = PyFloat (round_to_double q)"

text \<open>\<open>value * 1000\<close>: exact on an int, rounded on a float.\<close>

fun times_1000 :: "pynum \<Rightarrow> pynum" where
  "times_1000 (PyInt i) = PyInt (i * 1000)"
| "times_1000 (PyFloat q) = PyFloat (round_to_double (q * 1000))"

text \<open>\<open>int(value)\<close>: a float loses its fractional part (truncation toward zero).\<close>

fun py_int :: "pynum \<Rightarrow> int" where
  "py_int (PyInt i) = i"
| "py_int (PyFloat q) = (if 0 \<le> q then \<lfloor>q\<rfloor> else \<lceil>q\<rceil>)"


section \<open>Export to the contract format (blockchain\_service.py)\<close>

text \<open>\<open>d.get(key, default)\<close> on a key whose value, when present, is never \<open>None\<close>.\<close>

fun get_or :: "'a option \<Rightarrow> 'a \<Rightarrow> 'a" where
  "get_or None dflt = dflt"
| "get_or (Some v) dflt = v"

text \<open>\<open>value or default\<close> on an optional string.\<close>

definition str_or :: "string option \<Rightarrow> string \<Rightarrow> string" where
  "str_or v dflt = (if str_truthy v then the v else dflt)"

text \<open>\<open>BlockchainExportService._string_to_bytes32\<close>, with UTF-8 bytes as numbers below 256.\<close>

definition utf8_encode :: "string \<Rightarrow> nat list" where
  "utf8_encode s =
     concat (map (\<lambda>c. let n = (of_char c :: nat)
                       in if n < 128 then [n] else [192 + n div 64, 128 + n mod 64]) s)"

definition hex_digit :: "nat \<Rightarrow> char" where
  "hex_digit d = (if d < 10 then char_of (48 + d) else char_of (87 + d))"

definition hex_byte :: "nat \<Rightarrow> string" where
  "hex_byte b = [hex_digit (b div 16), hex_digit (b mod 16)]"

definition ljust :: "nat \<Rightarrow> 'a \<Rightarrow> 'a list \<Rightarrow> 'a list" where
  "ljust n pad xs = xs @ replicate (n - length xs) pad"

definition string_to_bytes32 :: "string \<Rightarrow> string" where
  "string_to_bytes32 s =
     (if s = [] then ''0x'' @ concat (replicate 32 ''00'')
      else ''0x'' @ concat (map hex_byte (ljust 32 0 (take 32 (utf8_encode s)))))"

text \<open>
  A vertex dictionary as the store adapter returns it. Field \<open>kv_k\<close> is the key \<open>k\<close>;
  \<open>None\<close> means that the key is absent. A key that is present holds a value of its
  column's type.
\<close>

record kuzu_vertex =
  kv_id :: "string option"
  kv_ifc_type :: "string option"
  kv_name :: "string option"
  kv_x :: "pynum option"
  kv_y :: "pynum option"
  kv_z :: "pynum option"
  kv_ifc_guid :: "string option"
  kv_building_id :: "string option"
  kv_file_id :: "string option"

text \<open>
  A node dictionary (\<open>GraphNodeMetadata\<close>). Field \<open>gn_k\<close> is the key \<open>k\<close>, \<open>None\<close> an
  absent key: the exporter sets every key, the validator also receives dictionaries
  that lack some.
\<close>

record graph_node =
  gn_tokenType :: "int option"
  gn_kuzuElementId :: "string option"
  gn_topologicVertexId :: "string option"
  gn_ifcGuid :: "string option"
  gn_ifcType :: "string option"
  gn_name :: "string option"
  gn_x :: "pynum option"
  gn_y :: "pynum option"
  gn_z :: "pynum option"
  gn_fileId :: "string option"
  gn_buildingId :: "string option"
  gn_parentTokenId :: "int option"
  gn_childTokenIds :: "int list option"
  gn_status :: "int option"
  gn_mintedAt :: "int option"
  gn_exists :: "bool option"

text \<open>\<open>BlockchainExportService._convert_vertex_to_graph_node\<close>.\<close>

definition convert_vertex_to_graph_node :: "kuzu_vertex \<Rightarrow> string \<Rightarrow> graph_node" where
  "convert_vertex_to_graph_node vertex file_id =
     (let ifc_type = py_lower (get_or (kv_ifc_type vertex) []);
          token_type = determine_token_type ifc_type;
          x = py_int (times_1000 (get_or (kv_x vertex) (PyFloat 0)));
          y = py_int (times_1000 (get_or (kv_y vertex) (PyFloat 0)));
          z = py_int (times_1000 (get_or (kv_z vertex) (PyFloat 0)));
          file_id_bytes32 = string_to_bytes32 file_id;
          building_id_bytes32 = string_to_bytes32 (get_or (kv_building_id vertex) [])
      in \<lparr>gn_tokenType = Some (token_type_value token_type),
          gn_kuzuElementId = Some (get_or (kv_id vertex) []),
          gn_topologicVertexId = Some (get_or (kv_id vertex) []),
          gn_ifcGuid = Some (get_or (kv_ifc_guid vertex) []),
          gn_ifcType = Some (get_or (kv_ifc_type vertex) ''Unknown''),
          gn_name = Some (get_or (kv_name vertex) ''Unnamed''),
          gn_x = Some (PyInt x),
          gn_y = Some (PyInt y),
          gn_z = Some (PyInt z),
          gn_fileId = Some file_id_bytes32,
          gn_buildingId = Some building_id_bytes32,
          gn_parentTokenId = Some 0,
          gn_childTokenIds = Some [],
          gn_status = Some 0,
          gn_mintedAt = Some 0,
          gn_exists = Some False\<rparr>)"

text \<open>
  An edge dictionary (\<open>GraphEdge\<close>), field \<open>ge_k\<close> for the key \<open>k\<close>. The last two keys are
  the ones the validator reads for the endpoints.
\<close>

record graph_edge =
  ge_fromTokenId :: "int option"
  ge_toTokenId :: "int option"
  ge_fromIndex :: "nat option"
  ge_toIndex :: "nat option"
  ge_connectionType :: "string option"
  ge_edgeProperties :: "string option"
  ge_kuzuEdgeId :: "string option"
  ge_bidirectional :: "bool option"
  ge_fromKuzuId :: "string option"
  ge_toKuzuId :: "string option"

text \<open>
  One row of the relationship query: \<open>a.id, b.id, r.connection_type, r.edge_type,
  r.properties\<close>. \<open>row_properties\<close> is \<open>str(properties)\<close> when the properties are truthy
  and \<open>None\<close> otherwise.
\<close>

record edge_row =
  row_from_id :: string
  row_to_id :: string
  row_connection_type :: "string option"
  row_edge_type :: "string option"
  row_properties :: "string option"

text \<open>What a query gives: an exception, or the rows it delivers.\<close>

datatype 'a query_result = QueryRaises string | QueryRows "'a list"

text \<open>
  The collaborator as the export service uses it: \<open>kuzu_service.get_vertices_by_file\<close>
  and \<open>kuzu_service.connection.execute\<close> on the relationship query, both for a file
  identifier.
\<close>

record kuzu_service =
  get_vertices_by_file :: "string \<Rightarrow> py_error + kuzu_vertex list"
  connection_execute :: "string \<Rightarrow> edge_row query_result"

text \<open>The \<open>while result.has_next()\<close> loop of \<open>_get_edges_for_file\<close>.\<close>

fun edge_rows_loop ::
  "(string \<rightharpoonup> nat) \<Rightarrow> edge_row list \<Rightarrow> nat \<Rightarrow> graph_edge list \<Rightarrow> graph_edge list" where
  "edge_rows_loop vertex_id_to_index [] edge_counter edge_dicts = edge_dicts"
| "edge_rows_loop vertex_id_to_index (row # rows) edge_counter edge_dicts =
     (let from_id = row_from_id row;
          to_id = row_to_id row;
          connection_type = str_or (row_connection_type row) ''topological''
      in if vertex_id_to_index from_id \<noteq> None \<and> vertex_id_to_index to_id \<noteq> None
         then edge_rows_loop vertex_id_to_index rows (edge_counter + 1)
                (edge_dicts @ [\<lparr>ge_fromTokenId = Some 0,
                            ge_toTokenId = Some 0,
                            ge_fromIndex = vertex_id_to_index from_id,
                            ge_toIndex = vertex_id_to_index to_id,
                            ge_connectionType = Some connection_type,
                            ge_edgeProperties = Some (get_or (row_properties row) ''{}''),
                            ge_kuzuEdgeId = Some (string_to_bytes32 (''edge_'' @ show_nat edge_counter)),
                            ge_bidirectional = Some True,
                            ge_fromKuzuId = None,
                            ge_toKuzuId = None\<rparr>])
         else edge_rows_loop vertex_id_to_index rows edge_counter edge_dicts)"

text \<open>
  \<open>BlockchainExportService._get_edges_for_file\<close>. An exception of the query is logged and
  the edges collected so far are returned.
\<close>

definition get_edges_for_file ::
  "kuzu_service \<Rightarrow> string \<Rightarrow> (string \<rightharpoonup> nat) \<Rightarrow> graph_edge list" where
  "get_edges_for_file svc file_id vertex_id_to_index =
     (case connection_execute svc file_id of
        QueryRaises e \<Rightarrow> []
      | QueryRows rows \<Rightarrow> edge_rows_loop vertex_id_to_index rows 0 [])"



section \<open>The store adapter (kuzu\_service.py)\<close>






section \<open>Validation of exported data (blockchain\_service.py)\<close>

definition quoted :: "string \<Rightarrow> string" where
  "quoted s = [CHR 0x27] @ s @ [CHR 0x27]"

text \<open>The required-field loop of one node.\<close>

definition node_field_errors :: "nat \<Rightarrow> graph_node \<Rightarrow> string list" where
  "node_field_errors idx node =
     concat (map (\<lambda>(field, v). if \<not> str_truthy v
                                 then [''Node '' @ show_nat idx @ '': Missing required field '' @ quoted field]
                                 else [])
       [(''kuzuElementId'', gn_kuzuElementId node), (''ifcGuid'', gn_ifcGuid node),
        (''ifcType'', gn_ifcType node), (''name'', gn_name node)])"

text \<open>The coordinate loop of one node; \<open>isinstance(value, int)\<close> holds for an int only.\<close>

definition node_coord_errors :: "nat \<Rightarrow> graph_node \<Rightarrow> string list" where
  "node_coord_errors idx node =
     concat (map (\<lambda>(coord, v). case v of
                      None \<Rightarrow> [''Node '' @ show_nat idx @ '': Missing coordinate '' @ quoted coord]
                    | Some (PyInt i) \<Rightarrow> []
                    | Some (PyFloat q) \<Rightarrow>
                        [''Node '' @ show_nat idx @ '': Coordinate '' @ quoted coord @ '' must be int256''])
       [(''x'', gn_x node), (''y'', gn_y node), (''z'', gn_z node)])"

fun validate_nodes ::
  "graph_node list \<Rightarrow> nat \<Rightarrow> string list \<Rightarrow> string set \<Rightarrow> string list \<times> string set" where
  "validate_nodes [] idx errors kuzu_ids = (errors, kuzu_ids)"
| "validate_nodes (node # rest) idx errors kuzu_ids =
     validate_nodes rest (idx + 1)
       (errors @ node_field_errors idx node @ node_coord_errors idx node)
       (if str_truthy (gn_kuzuElementId node) then insert (the (gn_kuzuElementId node)) kuzu_ids
        else kuzu_ids)"

definition edge_errors :: "nat \<Rightarrow> graph_edge \<Rightarrow> string set \<Rightarrow> string list" where
  "edge_errors idx edge kuzu_ids =
     (let from_id = ge_fromKuzuId edge; to_id = ge_toKuzuId edge
      in (if str_truthy from_id \<and> the from_id \<notin> kuzu_ids
          then [''Edge '' @ show_nat idx @ '': fromKuzuId '' @ quoted (the from_id) @ '' not found in nodes'']
          else [])
       @ (if str_truthy to_id \<and> the to_id \<notin> kuzu_ids
          then [''Edge '' @ show_nat idx @ '': toKuzuId '' @ quoted (the to_id) @ '' not found in nodes'']
          else [])
       @ (if \<not> str_truthy (ge_connectionType edge)
          then [''Edge '' @ show_nat idx @ '': Missing connectionType'']
          else []))"

fun validate_edges :: "graph_edge list \<Rightarrow> nat \<Rightarrow> string list \<Rightarrow> string set \<Rightarrow> string list" where
  "validate_edges [] idx errors kuzu_ids = errors"
| "validate_edges (edge # rest) idx errors kuzu_ids =
     validate_edges rest (idx + 1) (errors @ edge_errors idx edge kuzu_ids) kuzu_ids"

text \<open>\<open>BlockchainExportService.validate_export_data\<close>.\<close>

definition validate_export_data :: "graph_node list \<Rightarrow> graph_edge list \<Rightarrow> bool \<times> string list" where
  "validate_export_data nodes edge_dicts =
     (if nodes = [] then (False, [''No nodes provided''])
      else let (errors, kuzu_ids) = validate_nodes nodes 0 [] {};
               errors = validate_edges edge_dicts 0 errors kuzu_ids
           in (errors = [], errors))"


section \<open>IFC processing (data\_models.py, topologic\_models.py, ifc\_processor.py)\<close>

datatype ProcessingMethod = DIRECT | TRADITIONAL

fun method_value :: "ProcessingMethod \<Rightarrow> string" where
  "method_value DIRECT = ''direct''"
| "method_value TRADITIONAL = ''traditional''"

text \<open>\<open>ProcessingConfig\<close>, its fields with the prefix \<open>cfg_\<close>.\<close>

record ProcessingConfig =
  cfg_method :: ProcessingMethod
  cfg_include_types :: "string list option"
  cfg_transfer_dictionaries :: bool
  cfg_tolerance :: rat
  cfg_max_file_size_mb :: int

text \<open>\<open>GraphStats\<close> and \<open>ProcessingResult\<close>; the wall-clock field \<open>processing_time\<close> is left out.\<close>

record GraphStats =
  gs_vertex_count :: int
  gs_edge_count :: int
  gs_ifc_types :: "(string \<times> int) list"
  gs_file_size_mb :: rat

record ProcessingResult =
  success :: bool
  message :: string
  stats :: "GraphStats option"
  error_details :: "string option"

text \<open>
  \<open>IFCProcessingContext\<close>, for an engine whose graph handles have type \<open>'h\<close>. The clock
  readings \<open>start_time\<close> and \<open>end_time\<close> are left out; the field \<open>method\<close> is called
  \<open>ctx_method\<close>.
\<close>

record 'h IFCProcessingContext =
  file_path :: string
  ctx_method :: string
  include_types :: "string list"
  transfer_dictionaries :: bool
  tolerance :: rat
  current_status :: string
  error_messages :: "string list"
  attempted_methods :: "string list"
  current_method :: "string option"
  original_topologic_graph :: "'h option"

definition add_error :: "'h IFCProcessingContext \<Rightarrow> string \<Rightarrow> 'h IFCProcessingContext" where
  "add_error self msg = self\<lparr>error_messages := error_messages self @ [msg]\<rparr>"

definition start_processing :: "'h IFCProcessingContext \<Rightarrow> 'h IFCProcessingContext" where
  "start_processing self = self\<lparr>current_status := ''processing''\<rparr>"

definition complete_processing :: "'h IFCProcessingContext \<Rightarrow> bool \<Rightarrow> 'h IFCProcessingContext" where
  "complete_processing self ok = self\<lparr>current_status := (if ok then ''completed'' else ''failed'')\<rparr>"

text \<open>
  The geometry engine. \<open>Graph.ByIFCPath\<close> is called with a path, a type filter and the
  dictionary flag; it raises, returns \<open>None\<close> or returns a graph handle, and what it does
  may depend on every call made so far: \<open>by_ifc_path\<close> maps the history of requests, the
  current one last, to the reply. \<open>extract_vertices\<close> and \<open>extract_edges\<close> stand for the
  two sub-procedures that walk a handle through the engine's accessors (the first
  re-raises what the engine raises, the second catches everything), \<open>timestamp\<close> for the
  clock reading put on a new graph.
\<close>

record ifc_request =
  req_path :: string
  req_includeTypes :: "string list option"
  req_transferDictionaries :: bool

datatype 'h engine_reply = Raises string | Returns "'h option"

record 'h topologic =
  by_ifc_path :: "ifc_request list \<Rightarrow> 'h engine_reply"
  extract_vertices :: "'h \<Rightarrow> py_error + TopologicVertex list"
  extract_edges :: "'h \<Rightarrow> TopologicVertex list \<Rightarrow> TopologicEdge list"
  timestamp :: string

text \<open>The file system as \<open>pathlib\<close> shows it: \<open>Path.exists\<close>, \<open>Path.suffix\<close>, \<open>Path.stat().st_size\<close>.\<close>

record filesystem =
  path_exists :: "string \<Rightarrow> bool"
  path_suffix :: "string \<Rightarrow> string"
  stat_size :: "string \<Rightarrow> py_error + nat"

text \<open>One call of \<open>Graph.ByIFCPath\<close>: the request joins the history, the engine replies.\<close>

definition graph_by_ifc_path ::
  "'h topologic \<Rightarrow> ifc_request \<Rightarrow> ifc_request list \<Rightarrow> 'h engine_reply \<times> ifc_request list" where
  "graph_by_ifc_path tp req calls = (by_ifc_path tp (calls @ [req]), calls @ [req])"

definition default_ifc_types :: "string list" where
  "default_ifc_types =
     [''IfcWall'', ''IfcSlab'', ''IfcBeam'', ''IfcColumn'', ''IfcDoor'', ''IfcWindow'',
      ''IfcSpace'', ''IfcRoom'', ''IfcBuildingStorey'', ''IfcBuilding'']"

text \<open>\<open>xs or None\<close> on a list.\<close>

definition list_or_none :: "'a list \<Rightarrow> 'a list option" where
  "list_or_none xs = (if xs \<noteq> [] then Some xs else None)"

text \<open>\<open>IFCProcessorService._extract_graph_data\<close>.\<close>

definition extract_graph_data ::
  "'h topologic \<Rightarrow> 'h option \<Rightarrow> 'h IFCProcessingContext
   \<Rightarrow> (py_error + TopologicGraph) \<times> 'h IFCProcessingContext" where
  "extract_graph_data tp topologic_graph context =
     (case topologic_graph of
        None \<Rightarrow> (Inl (Exception ''TopologicPy Graph is None - cannot extract data''), context)
      | Some h \<Rightarrow>
          (let context = context\<lparr>original_topologic_graph := Some h\<rparr>
           in case extract_vertices tp h of
                Inl e \<Rightarrow> (Inl e, context)
              | Inr vs \<Rightarrow>
                  (let es = extract_edges tp h vs;
                       graph = \<lparr>vertices = vs, edges = es, source_file = Some (file_path context),
                                processing_method = current_method context,
                                creation_timestamp = Some (timestamp tp),
                                vertex_count = 0, edge_count = 0, ifc_type_counts = []\<rparr>
                   in (Inr (update_statistics graph), context))))"

text \<open>
  The four strategies. Each takes the context and the request history and returns what
  it raises or returns, with the context and the history as it leaves them.
\<close>

type_synonym 'h strategy =
  "'h IFCProcessingContext \<Rightarrow> ifc_request list
   \<Rightarrow> (py_error + TopologicGraph) \<times> 'h IFCProcessingContext \<times> ifc_request list"

definition process_direct_with_dictionaries :: "'h topologic \<Rightarrow> 'h strategy" where
  "process_direct_with_dictionaries tp context calls =
     (case graph_by_ifc_path tp
             \<lparr>req_path = file_path context,
              req_includeTypes = list_or_none (include_types context),
              req_transferDictionaries = True\<rparr> calls of
        (Raises e, calls) \<Rightarrow>
          (Inl (Exception (''Graph.ByIFCPath failed with exception: '' @ e)), context, calls)
      | (Returns (Some h), calls) \<Rightarrow>
          (case extract_graph_data tp (Some h) context of (r, context) \<Rightarrow> (r, context, calls))
      | (Returns None, calls) \<Rightarrow>
          (case graph_by_ifc_path tp
                  \<lparr>req_path = file_path context, req_includeTypes = None,
                   req_transferDictionaries = True\<rparr> calls of
             (Raises e, calls) \<Rightarrow>
               (Inl (Exception (''Graph.ByIFCPath fallback failed: '' @ e)), context, calls)
           | (Returns None, calls) \<Rightarrow>
               (Inl (Exception (''Graph.ByIFCPath returned None even without type filtering. ''
                                @ ''File may be corrupted or unsupported: '' @ file_path context)),
                context, calls)
           | (Returns (Some h), calls) \<Rightarrow>
               (case extract_graph_data tp (Some h) context of (r, context) \<Rightarrow> (r, context, calls))))"

definition process_direct_without_dictionaries :: "'h topologic \<Rightarrow> 'h strategy" where
  "process_direct_without_dictionaries tp context calls =
     (case graph_by_ifc_path tp
             \<lparr>req_path = file_path context,
              req_includeTypes = list_or_none (include_types context),
              req_transferDictionaries = False\<rparr> calls of
        (Raises e, calls) \<Rightarrow> (Inl (Exception e), context, calls)
      | (Returns None, calls) \<Rightarrow>
          (Inl (Exception ''Graph.ByIFCPath without dictionaries returned None''), context, calls)
      | (Returns (Some h), calls) \<Rightarrow>
          (case extract_graph_data tp (Some h) context of (r, context) \<Rightarrow> (r, context, calls)))"

definition process_traditional_with_types :: "'h topologic \<Rightarrow> 'h strategy" where
  "process_traditional_with_types tp context calls =
     (let types = (if include_types context \<noteq> [] then include_types context else default_ifc_types)
      in case graph_by_ifc_path tp
                \<lparr>req_path = file_path context, req_includeTypes = Some types,
                 req_transferDictionaries = True\<rparr> calls of
           (Raises e, calls) \<Rightarrow> (Inl (Exception e), context, calls)
         | (Returns None, calls) \<Rightarrow>
             (Inl (Exception ''Traditional processing with types failed''), context, calls)
         | (Returns (Some h), calls) \<Rightarrow>
             (case extract_graph_data tp (Some h) context of (r, context) \<Rightarrow> (r, context, calls)))"

definition process_traditional_fallback :: "'h topologic \<Rightarrow> 'h strategy" where
  "process_traditional_fallback tp context calls =
     (case graph_by_ifc_path tp
             \<lparr>req_path = file_path context, req_includeTypes = None,
              req_transferDictionaries = False\<rparr> calls of
        (Raises e, calls) \<Rightarrow> (Inl (Exception e), context, calls)
      | (Returns None, calls) \<Rightarrow> (Inl (Exception ''All fallback methods failed''), context, calls)
      | (Returns (Some h), calls) \<Rightarrow>
          (case extract_graph_data tp (Some h) context of (r, context) \<Rightarrow> (r, context, calls)))"

text \<open>
  The loop of \<open>_process_with_fallbacks\<close> over the named strategies. A graph object is
  always truthy, so a strategy succeeds when its graph has a vertex.
\<close>

fun run_strategies ::
  "(string \<times> 'h strategy) list \<Rightarrow> 'h IFCProcessingContext \<Rightarrow> ifc_request list
   \<Rightarrow> TopologicGraph option \<times> 'h IFCProcessingContext \<times> ifc_request list" where
  "run_strategies [] context calls = (None, context, calls)"
| "run_strategies ((strategy_name, strategy_func) # rest) context calls =
     (if strategy_name \<in> set (attempted_methods context) then run_strategies rest context calls
      else
        (case strategy_func
                (context\<lparr>attempted_methods := attempted_methods context @ [strategy_name],
                          current_method := Some strategy_name\<rparr>) calls of
           (Inr graph, context, calls) \<Rightarrow>
             if length (vertices graph) > 0 then (Some graph, context, calls)
             else run_strategies rest context calls
         | (Inl e, context, calls) \<Rightarrow>
             run_strategies rest (add_error context (strategy_name @ '': '' @ error_str e)) calls))"

text \<open>\<open>IFCProcessorService._process_with_fallbacks\<close>.\<close>

definition process_with_fallbacks ::
  "'h topologic \<Rightarrow> 'h IFCProcessingContext \<Rightarrow> ifc_request list
   \<Rightarrow> TopologicGraph option \<times> 'h IFCProcessingContext \<times> ifc_request list" where
  "process_with_fallbacks tp context calls =
     run_strategies
       [(''direct_with_dictionaries'', process_direct_with_dictionaries tp),
        (''direct_without_dictionaries'', process_direct_without_dictionaries tp),
        (''traditional_with_types'', process_traditional_with_types tp),
        (''traditional_fallback'', process_traditional_fallback tp)]
       context calls"

text \<open>\<open>IFCProcessorService._validate_ifc_file\<close> and \<open>_calculate_stats\<close>.\<close>

definition validate_ifc_file :: "filesystem \<Rightarrow> string \<Rightarrow> bool" where
  "validate_ifc_file fs path = (path_exists fs path \<and> py_lower (path_suffix fs path) = ''.ifc'')"

definition calculate_stats :: "filesystem \<Rightarrow> TopologicGraph \<Rightarrow> string \<Rightarrow> py_error + GraphStats" where
  "calculate_stats fs graph path =
     (case stat_size fs path of
        Inl e \<Rightarrow> Inl e
      | Inr st_size \<Rightarrow>
          Inr \<lparr>gs_vertex_count = vertex_count graph, gs_edge_count = edge_count graph,
               gs_ifc_types = ifc_type_counts graph,
               gs_file_size_mb = round_to_double (of_nat st_size / (1024 * 1024))\<rparr>)"

text \<open>The context \<open>process_ifc_file\<close> builds, after \<open>start_processing\<close>.\<close>

definition new_context :: "string \<Rightarrow> ProcessingConfig \<Rightarrow> 'h IFCProcessingContext" where
  "new_context path config =
     start_processing
       \<lparr>file_path = path, ctx_method = method_value (cfg_method config),
        include_types = get_or (cfg_include_types config) [],
        transfer_dictionaries = cfg_transfer_dictionaries config,
        tolerance = cfg_tolerance config, current_status = ''pending'',
        error_messages = [], attempted_methods = [], current_method = None,
        original_topologic_graph = None\<rparr>"

text \<open>
  The \<open>try\<close> block of \<open>process_ifc_file\<close>: the value it returns or the exception that
  leaves it, and the context as it is then.
\<close>

definition process_ifc_file_try ::
  "'h topologic \<Rightarrow> filesystem \<Rightarrow> string \<Rightarrow> 'h IFCProcessingContext \<Rightarrow> ifc_request list
   \<Rightarrow> (py_error + (TopologicGraph \<times> ProcessingResult \<times> 'h option)) \<times> 'h IFCProcessingContext" where
  "process_ifc_file_try tp fs path context calls =
     (if \<not> validate_ifc_file fs path
      then (Inl (ValueError (''Invalid IFC file: '' @ path)), context)
      else
        (case process_with_fallbacks tp context calls of
           (Some graph, context, calls) \<Rightarrow>
             (let context = complete_processing context True
              in case calculate_stats fs graph path of
                   Inl e \<Rightarrow> (Inl e, context)
                 | Inr st \<Rightarrow>
                     (Inr (graph,
                           \<lparr>success = True,
                            message = ''Successfully processed IFC file using ''
                                      @ get_or (current_method context) ''None'',
                            stats = Some st, error_details = None\<rparr>,
                           original_topologic_graph context),
                      context))
         | (None, context, calls) \<Rightarrow>
             (Inl (Exception ''All processing methods failed''), context)))"

text \<open>
  The body of \<open>process_ifc_file\<close> with the context it leaves behind: the
  \<open>except Exception\<close> branch records the exception in the context, marks it failed, and
  turns whatever left the \<open>try\<close> block into a failure result with a new, empty graph and
  no handle.
\<close>

definition process_ifc_file_context ::
  "'h topologic \<Rightarrow> filesystem \<Rightarrow> string \<Rightarrow> ProcessingConfig \<Rightarrow> ifc_request list
   \<Rightarrow> (TopologicGraph \<times> ProcessingResult \<times> 'h option) \<times> 'h IFCProcessingContext" where
  "process_ifc_file_context tp fs path config calls =
     (case process_ifc_file_try tp fs path (new_context path config) calls of
        (Inr r, context) \<Rightarrow> (r, context)
      | (Inl e, context) \<Rightarrow>
          ((empty_graph,
            \<lparr>success = False,
             message = ''Failed to process IFC file: '' @ error_str e,
             stats = None,
             error_details = Some (error_str e)\<rparr>,
            None),
           complete_processing (add_error context (error_str e)) False))"

text \<open>
  \<open>IFCProcessorService.process_ifc_file\<close>: the context is local to the call, the caller
  gets the graph, the result and the handle.
\<close>

definition process_ifc_file ::
  "'h topologic \<Rightarrow> filesystem \<Rightarrow> string \<Rightarrow> ProcessingConfig \<Rightarrow> ifc_request list
   \<Rightarrow> TopologicGraph \<times> ProcessingResult \<times> 'h option" where
  "process_ifc_file tp fs path config calls = fst (process_ifc_file_context tp fs path config calls)"

section \<open>Sample data\<close>

text \<open>The vertex \<open>vertex-3\<close> of the test fixtures, coordinates (10.5, 20.3, 3.2).\<close>

definition sample_space :: kuzu_vertex where
  "sample_space =
     \<lparr>kv_id = Some ''vertex-3'', kv_ifc_type = Some ''IfcSpace'', kv_name = Some ''Room 101'',
      kv_x = Some (float_literal (21 / 2)), kv_y = Some (float_literal (203 / 10)),
      kv_z = Some (float_literal (16 / 5)), kv_ifc_guid = Some ''1A2B3C4D5E6F7G8H9I0J1K'',
      kv_building_id = Some ''building-1'', kv_file_id = Some ''file-123''\<rparr>"




definition dangling_edge :: graph_edge where
  "dangling_edge =
     \<lparr>ge_fromTokenId = Some 0, ge_toTokenId = Some 0, ge_fromIndex = Some 0, ge_toIndex = Some 7,
      ge_connectionType = Some ''topological'', ge_edgeProperties = Some ''{}'',
      ge_kuzuEdgeId = Some (string_to_bytes32 ''edge_0''), ge_bidirectional = Some True,
      ge_fromKuzuId = None, ge_toKuzuId = None\<rparr>"




text \<open>
  An engine that raises on every request, a file system where every path is an existing
  \<open>.ifc\<close> file of one megabyte, and a configuration with the type filter IfcWall.
\<close>

definition raising_engine :: "unit topologic" where
  "raising_engine =
     \<lparr>by_ifc_path = (\<lambda>history. Raises ''boom''), extract_vertices = (\<lambda>h. Inr []),
      extract_edges = (\<lambda>h vs. []), timestamp = ''2025-01-01 12:00:00''\<rparr>"

definition ifc_filesystem :: filesystem where
  "ifc_filesystem =
     \<lparr>path_exists = (\<lambda>path. True), path_suffix = (\<lambda>path. ''.IFC''),
      stat_size = (\<lambda>path. Inr 1048576)\<rparr>"

definition wall_config :: ProcessingConfig where
  "wall_config =
     \<lparr>cfg_method = DIRECT, cfg_include_types = Some [''IfcWall''],
      cfg_transfer_dictionaries = True, cfg_tolerance = round_to_double (1 / 1000),
      cfg_max_file_size_mb = 100\<rparr>"

section \<open>Facts about the string helpers\<close>

lemma starts_with_iff: "starts_with s p \<longleftrightarrow> (\<exists>r. s = p @ r)"
  by (induction s p rule: starts_with.induct) auto

lemma starts_with_append [simp]: "starts_with (p @ r) p"
  by (simp add: starts_with_iff)

lemma str_contains_iff: "str_contains sub s \<longleftrightarrow> has_substring sub s"
proof (induction s)
  case Nil
  show ?case by (auto simp: has_substring_def)
next
  case (Cons c cs)
  show ?case
  proof
    assume "str_contains sub (c # cs)"
    then consider "starts_with (c # cs) sub" | "str_contains sub cs" by auto
    then show "has_substring sub (c # cs)"
    proof cases
      case 1
      then obtain r where "c # cs = sub @ r" by (auto simp: starts_with_iff)
      then have "c # cs = [] @ sub @ r" by simp
      then show ?thesis unfolding has_substring_def by blast
    next
      case 2
      with Cons.IH obtain u v where "cs = u @ sub @ v" by (auto simp: has_substring_def)
      then have "c # cs = (c # u) @ sub @ v" by simp
      then show ?thesis unfolding has_substring_def by blast
    qed
  next
    assume "has_substring sub (c # cs)"
    then obtain u v where uv: "c # cs = u @ sub @ v" by (auto simp: has_substring_def)
    show "str_contains sub (c # cs)"
    proof (cases u)
      case Nil
      with uv have "starts_with (c # cs) sub" by (simp add: starts_with_iff)
      then show ?thesis by simp
    next
      case (Cons a u')
      with uv have "cs = u' @ sub @ v" by simp
      then have "has_substring sub cs" unfolding has_substring_def by blast
      with Cons.IH show ?thesis by simp
    qed
  qed
qed

section \<open>Token-type classification\<close>

text \<open>
  C5. Classification looks only at the lower-cased type string and decides in the fixed
  order: "project" gives PROJECT; otherwise "building" without "storey" gives BUILDING;
  otherwise "storey" or "floor" gives STOREY; otherwise "space", "room" or "zone" gives
  SPACE; otherwise COMPONENT. Every string gets one of the five types, and
  "IfcBuildingStorey" is a STOREY, not a BUILDING.
\<close>

theorem determine_token_type_classification:
  "determine_token_type s =
     (if has_substring ''project'' (py_lower s) then PROJECT
      else if has_substring ''building'' (py_lower s) \<and> \<not> has_substring ''storey'' (py_lower s)
        then BUILDING
      else if has_substring ''storey'' (py_lower s) \<or> has_substring ''floor'' (py_lower s)
        then STOREY
      else if has_substring ''space'' (py_lower s) \<or> has_substring ''room'' (py_lower s)
              \<or> has_substring ''zone'' (py_lower s)
        then SPACE
      else COMPONENT)
   \<and> determine_token_type s \<in> {PROJECT, BUILDING, STOREY, SPACE, COMPONENT}
   \<and> determine_token_type ''IfcBuildingStorey'' = STOREY
   \<and> determine_token_type ''IfcBuildingStorey'' \<noteq> BUILDING"
proof -
  have a: "determine_token_type ''IfcBuildingStorey'' = STOREY"
    by code_simp
  have b: "determine_token_type s \<in> {PROJECT, BUILDING, STOREY, SPACE, COMPONENT}"
    by (cases "determine_token_type s") simp_all
  show ?thesis
    using a b by (simp add: determine_token_type_def Let_def str_contains_iff)
qed

section \<open>Token URI round trip\<close>

lemma first_some_hit: "n \<noteq> 0 \<Longrightarrow> f n = Some r \<Longrightarrow> first_some f n = Some r"
  by (cases n) simp_all

lemma takeWhile_stop: "\<forall>c\<in>set k. P c \<Longrightarrow> \<not> P d \<Longrightarrow> takeWhile P (k @ d # r) = k"
  by simp

lemma re_match_any_plus:
  assumes "g \<noteq> []" and "CHR 0x0A \<notin> set g"
  shows "re_match [AnyPlus] g = Some [g]"
proof -
  have tw: "takeWhile (re_class AnyPlus) g = g"
    using assms(2) by auto
  have "first_some (\<lambda>k. map_option ((#) (take k g)) (re_match [] (drop k g))) (length g) = Some [g]"
    using assms(1) by (intro first_some_hit) simp_all
  then show ?thesis by (simp add: tw)
qed

lemma re_match_group_lit:
  assumes "k \<noteq> []" and "CHR ''/'' \<notin> set k"
    and "re_match rs (CHR ''/'' # r) = Some gs"
  shows "re_match (NotSlashPlus # rs) (k @ CHR ''/'' # r) = Some (k # gs)"
proof -
  have tw: "takeWhile (re_class NotSlashPlus) (k @ CHR ''/'' # r) = k"
    using assms(2) by (intro takeWhile_stop) auto
  have "first_some (\<lambda>n. map_option ((#) (take n (k @ CHR ''/'' # r)))
            (re_match rs (drop n (k @ CHR ''/'' # r)))) (length k) = Some (k # gs)"
    using assms(1,3) by (intro first_some_hit) simp_all
  then show ?thesis by (simp add: tw)
qed

lemma re_match_kuzu_uri:
  assumes "k \<noteq> []" "t \<noteq> []" "g \<noteq> []"
    and "CHR ''/'' \<notin> set k" "CHR ''/'' \<notin> set t" "CHR 0x0A \<notin> set g"
  shows "re_match kuzu_uri_pattern (''kuzu://'' @ k @ ''/topologic/'' @ t @ ''/ifc/'' @ g)
         = Some [k, t, g]"
proof -
  have 1: "re_match [Lit ''/ifc/'', AnyPlus] (CHR ''/'' # ''ifc/'' @ g) = Some [g]"
    using re_match_any_plus [OF assms(3) assms(6)] by simp
  have 2: "re_match [NotSlashPlus, Lit ''/ifc/'', AnyPlus] (t @ CHR ''/'' # ''ifc/'' @ g) = Some [t, g]"
    using re_match_group_lit [OF assms(2) assms(5) 1] .
  have 3: "re_match [Lit ''/topologic/'', NotSlashPlus, Lit ''/ifc/'', AnyPlus]
             (CHR ''/'' # ''topologic/'' @ t @ CHR ''/'' # ''ifc/'' @ g) = Some [t, g]"
    using 2 by simp
  have 4: "re_match [NotSlashPlus, Lit ''/topologic/'', NotSlashPlus, Lit ''/ifc/'', AnyPlus]
             (k @ CHR ''/'' # ''topologic/'' @ t @ CHR ''/'' # ''ifc/'' @ g) = Some [k, t, g]"
    using re_match_group_lit [OF assms(1) assms(4) 3] .
  show ?thesis
    unfolding kuzu_uri_pattern_def using 4 by simp
qed

text \<open>
  C8 (as amended). A token whose three identifiers are non-empty, whose Kuzu and
  TopologicPy identifiers contain no slash and whose IFC GUID contains no newline is
  recovered from its \<open>kuzu://\<close> URI: parsing the generated URI gives back exactly the
  three identifiers.
\<close>

theorem token_uri_round_trip:
  assumes "kuzu_element_id t \<noteq> []" and "topologic_vertex_id t \<noteq> []" and "token_ifc_guid t \<noteq> []"
    and "CHR ''/'' \<notin> set (kuzu_element_id t)" and "CHR ''/'' \<notin> set (topologic_vertex_id t)"
    and "CHR 0x0A \<notin> set (token_ifc_guid t)"
  shows "parse_token_uri http_ids (generate_token_uri t None)
         = Inr \<lparr>kuzu_id = kuzu_element_id t, topologic_id = topologic_vertex_id t,
                 ifc_guid_part = token_ifc_guid t\<rparr>"
proof -
  let ?uri = "''kuzu://'' @ kuzu_element_id t @ ''/topologic/'' @ topologic_vertex_id t
                @ ''/ifc/'' @ token_ifc_guid t"
  have g: "generate_token_uri t None = ?uri"
    by (simp add: generate_token_uri_def)
  have m: "re_match kuzu_uri_pattern ?uri
           = Some [kuzu_element_id t, topologic_vertex_id t, token_ifc_guid t]"
    using assms by (rule re_match_kuzu_uri)
  have s: "starts_with ?uri ''kuzu://''"
    by (rule starts_with_append)
  show ?thesis
    unfolding g parse_token_uri_def using m s by simp
qed

theorem token_uri_round_trip_witness:
  "parse_token_uri (\<lambda>u. None)
     (generate_token_uri \<lparr>topologic_vertex_id = ''vertex456'', kuzu_element_id = ''elem123'',
                          token_ifc_guid = ''guid789''\<rparr> None)
   = Inr \<lparr>kuzu_id = ''elem123'', topologic_id = ''vertex456'', ifc_guid_part = ''guid789''\<rparr>"
  using token_uri_round_trip
    [of "\<lparr>topologic_vertex_id = ''vertex456'', kuzu_element_id = ''elem123'',
          token_ifc_guid = ''guid789''\<rparr>" "\<lambda>u. None"]
  by simp

text \<open>
  The claim as stated, for every token with non-empty identifiers, fails when an
  identifier contains a slash: the URI of the Kuzu identifier \<open>a/b\<close> does not match the
  pattern and parsing raises \<open>ValueError\<close>.
\<close>

theorem token_uri_round_trip_counterexample:
  "parse_token_uri (\<lambda>u. None)
     (generate_token_uri \<lparr>topologic_vertex_id = ''v'', kuzu_element_id = ''a/b'',
                          token_ifc_guid = ''g''\<rparr> None)
   = Inl (ValueError ''Unable to parse token URI: kuzu://a/b/topologic/v/ifc/g'')"
  by (simp add: generate_token_uri_def parse_token_uri_def kuzu_uri_pattern_def)

section \<open>Metadata extraction\<close>

lemma first_alias_miss: "\<forall>k\<in>set keys. d k = None \<Longrightarrow> first_alias keys d field = field"
  by (induction keys) simp_all

lemma first_alias_hit:
  "i < length keys \<Longrightarrow> d (keys ! i) = Some x \<Longrightarrow> \<forall>j<i. d (keys ! j) = None
   \<Longrightarrow> first_alias keys d field = x"
proof (induction keys arbitrary: i)
  case Nil
  then show ?case by simp
next
  case (Cons key keys)
  show ?case
  proof (cases i)
    case 0
    with Cons.prems show ?thesis by simp
  next
    case (Suc i')
    from Cons.prems(3) Suc have k: "d key = None" by auto
    from Cons.prems(3) Suc have "\<forall>j<i'. d (keys ! j) = None" by auto
    with Cons.IH [of i'] Cons.prems(1,2) Suc have "first_alias keys d field = x" by simp
    with k show ?thesis by simp
  qed
qed

lemma first_alias_present:
  "\<exists>k\<in>set keys. d k \<noteq> None \<Longrightarrow> \<exists>k\<in>set keys. d k = Some (first_alias keys d field)"
proof (induction keys)
  case Nil
  then show ?case by simp
next
  case (Cons key keys)
  show ?case
  proof (cases "d key")
    case None
    with Cons show ?thesis by auto
  next
    case (Some v)
    then show ?thesis by simp
  qed
qed

text \<open>
  C6 (as amended). After metadata extraction \<open>ifc_type\<close> holds the value stored under the
  first alias key, in the fixed order IFC\_type, ifc\_type, IFCType, type, Entity, that is
  present in the dictionary; when no alias key is present the field keeps the value it had.
  So for a vertex whose \<open>ifc_type\<close> was \<open>None\<close> before and whose alias keys hold no \<open>None\<close>
  value, \<open>ifc_type\<close> is \<open>None\<close> afterwards exactly when no alias key is present.
\<close>

theorem extract_ifc_metadata_ifc_type:
  "(i < length type_keys \<and> dictionaries v (type_keys ! i) = Some x
      \<and> (\<forall>j<i. dictionaries v (type_keys ! j) = None)
      \<longrightarrow> ifc_type (extract_ifc_metadata v) = x)
   \<and> ((\<forall>k\<in>set type_keys. dictionaries v k = None)
      \<longrightarrow> ifc_type (extract_ifc_metadata v) = ifc_type v)
   \<and> (ifc_type v = None \<and> (\<forall>k\<in>set type_keys. dictionaries v k \<noteq> Some None)
      \<longrightarrow> (ifc_type (extract_ifc_metadata v) = None
           \<longleftrightarrow> (\<forall>k\<in>set type_keys. dictionaries v k = None)))"
proof (intro conjI impI)
  assume "i < length type_keys \<and> dictionaries v (type_keys ! i) = Some x
      \<and> (\<forall>j<i. dictionaries v (type_keys ! j) = None)"
  then have "first_alias type_keys (dictionaries v) (ifc_type v) = x"
    by (intro first_alias_hit [of i]) simp_all
  then show "ifc_type (extract_ifc_metadata v) = x"
    by (simp add: extract_ifc_metadata_def)
next
  assume "\<forall>k\<in>set type_keys. dictionaries v k = None"
  then show "ifc_type (extract_ifc_metadata v) = ifc_type v"
    by (simp add: extract_ifc_metadata_def first_alias_miss)
next
  assume a: "ifc_type v = None \<and> (\<forall>k\<in>set type_keys. dictionaries v k \<noteq> Some None)"
  show "ifc_type (extract_ifc_metadata v) = None
        \<longleftrightarrow> (\<forall>k\<in>set type_keys. dictionaries v k = None)"
  proof
    assume n: "ifc_type (extract_ifc_metadata v) = None"
    show "\<forall>k\<in>set type_keys. dictionaries v k = None"
    proof (rule ccontr)
      assume "\<not> (\<forall>k\<in>set type_keys. dictionaries v k = None)"
      then have "\<exists>k\<in>set type_keys. dictionaries v k \<noteq> None" by simp
      from first_alias_present [OF this, of "ifc_type v"]
      obtain k where "k \<in> set type_keys"
        and "dictionaries v k = Some (first_alias type_keys (dictionaries v) (ifc_type v))"
        by blast
      moreover from n have "first_alias type_keys (dictionaries v) (ifc_type v) = None"
        by (simp add: extract_ifc_metadata_def)
      ultimately show False using a by auto
    qed
  next
    assume "\<forall>k\<in>set type_keys. dictionaries v k = None"
    then show "ifc_type (extract_ifc_metadata v) = None"
      using a by (simp add: extract_ifc_metadata_def first_alias_miss)
  qed
qed

text \<open>
  Two aliases present: \<open>ifc_type\<close> (second in the list) wins over \<open>type\<close> (fourth). No
  alias present on a fresh vertex: the field stays \<open>None\<close>.
\<close>

theorem extract_ifc_metadata_ifc_type_witness:
  "ifc_type (extract_ifc_metadata
      \<lparr>vertex_id = ''v1'', coordinates = (0, 0, 0),
       dictionaries = [''type'' \<mapsto> Some ''Generic'', ''ifc_type'' \<mapsto> Some ''IfcWall''],
       ifc_type = None, ifc_guid = None, ifc_name = None\<rparr>) = Some ''IfcWall''
   \<and> ifc_type (extract_ifc_metadata
      \<lparr>vertex_id = ''v2'', coordinates = (0, 0, 0), dictionaries = [''Colour'' \<mapsto> Some ''red''],
       ifc_type = None, ifc_guid = None, ifc_name = None\<rparr>) = None"
proof -
  let ?v1 = "\<lparr>vertex_id = ''v1'', coordinates = (0, 0, 0),
       dictionaries = [''type'' \<mapsto> Some ''Generic'', ''ifc_type'' \<mapsto> Some ''IfcWall''],
       ifc_type = None, ifc_guid = None, ifc_name = None\<rparr>"
  let ?v2 = "\<lparr>vertex_id = ''v2'', coordinates = (0, 0, 0), dictionaries = [''Colour'' \<mapsto> Some ''red''],
       ifc_type = None, ifc_guid = None, ifc_name = None\<rparr>"
  have 1: "ifc_type (extract_ifc_metadata ?v1) = Some ''IfcWall''"
    using extract_ifc_metadata_ifc_type [of 1 ?v1 "Some ''IfcWall''"]
    by (simp add: type_keys_def)
  have 2: "ifc_type (extract_ifc_metadata ?v2) = None"
    using extract_ifc_metadata_ifc_type [of 0 ?v2 None]
    by (simp add: type_keys_def)
  from 1 2 show ?thesis by simp
qed

text \<open>
  The claim as stated fails on a vertex built with \<open>ifc_type\<close> already set and an empty
  dictionary (the field is kept, though no alias key is present), and on a vertex whose
  alias key holds \<open>None\<close> (the key is present, the field is \<open>None\<close>).
\<close>

theorem extract_ifc_metadata_ifc_type_counterexample:
  "\<not> (ifc_type (extract_ifc_metadata
          \<lparr>vertex_id = ''v1'', coordinates = (0, 0, 0), dictionaries = Map.empty,
           ifc_type = Some ''IfcWall'', ifc_guid = None, ifc_name = None\<rparr>) = None
       \<longleftrightarrow> (\<forall>k\<in>set type_keys. (Map.empty :: string \<rightharpoonup> string option) k = None))
   \<and> \<not> (ifc_type (extract_ifc_metadata
          \<lparr>vertex_id = ''v2'', coordinates = (0, 0, 0), dictionaries = [''IFC_type'' \<mapsto> None],
           ifc_type = None, ifc_guid = None, ifc_name = None\<rparr>) = None
       \<longleftrightarrow> (\<forall>k\<in>set type_keys. [''IFC_type'' \<mapsto> (None :: string option)] k = None))"
  by (simp add: extract_ifc_metadata_def type_keys_def)

section \<open>Graph statistics\<close>

lemma sum_update_count:
  "sum_list (map snd (AList.update k (dict_get d k 0 + 1) d)) = sum_list (map snd d) + (1::int)"
  by (induction d) (auto simp: dict_get_def)

lemma sum_count_types:
  "sum_list (map snd (count_types vs d))
   = sum_list (map snd d) + int (length (filter (\<lambda>v. str_truthy (ifc_type v)) vs))"
  by (induction vs arbitrary: d) (simp_all add: sum_update_count)

text \<open>
  C9 (as amended). After \<open>update_statistics\<close>, \<open>vertex_count\<close> is the number of vertices,
  \<open>edge_count\<close> the number of edges, and the values of \<open>ifc_type_counts\<close> sum to the number
  of vertices whose \<open>ifc_type\<close> is neither \<open>None\<close> nor the empty string; a second call
  changes nothing.
\<close>

theorem update_statistics_counts:
  "vertex_count (update_statistics g) = int (length (vertices g))
   \<and> edge_count (update_statistics g) = int (length (edges g))
   \<and> sum_list (map snd (ifc_type_counts (update_statistics g)))
     = int (length (filter (\<lambda>v. ifc_type v \<noteq> None \<and> ifc_type v \<noteq> Some []) (vertices g)))
   \<and> update_statistics (update_statistics g) = update_statistics g"
proof -
  have t: "str_truthy x = (x \<noteq> None \<and> x \<noteq> Some [])" for x
    by (cases x) simp_all
  have "sum_list (map snd (ifc_type_counts (update_statistics g)))
        = int (length (filter (\<lambda>v. str_truthy (ifc_type v)) (vertices g)))"
    by (simp add: update_statistics_def sum_count_types)
  then have s: "sum_list (map snd (ifc_type_counts (update_statistics g)))
        = int (length (filter (\<lambda>v. ifc_type v \<noteq> None \<and> ifc_type v \<noteq> Some []) (vertices g)))"
    unfolding t .
  have c: "vertex_count (update_statistics g) = int (length (vertices g))"
    "edge_count (update_statistics g) = int (length (edges g))"
    "update_statistics (update_statistics g) = update_statistics g"
    by (simp_all add: update_statistics_def)
  from c s show ?thesis by blast
qed

text \<open>
  The claim as stated counts the vertices with a non-null \<open>ifc_type\<close>. A vertex whose type
  is the empty string is non-null and is not counted.
\<close>

theorem update_statistics_counts_counterexample:
  "sum_list (map snd (ifc_type_counts (update_statistics
      \<lparr>vertices = [\<lparr>vertex_id = ''v1'', coordinates = (0, 0, 0),
                    dictionaries = [''IFC_type'' \<mapsto> Some []],
                    ifc_type = Some [], ifc_guid = None, ifc_name = None\<rparr>],
       edges = [], source_file = None, processing_method = None, creation_timestamp = None,
       vertex_count = 0, edge_count = 0, ifc_type_counts = []\<rparr>)))
   \<noteq> int (length (filter (\<lambda>v. ifc_type v \<noteq> None)
      [\<lparr>vertex_id = ''v1'', coordinates = (0, 0, 0),
        dictionaries = [''IFC_type'' \<mapsto> Some []],
        ifc_type = Some [], ifc_guid = None, ifc_name = None\<rparr>]))"
  by (simp add: update_statistics_def)

section \<open>Coordinate scaling\<close>




section \<open>Validation of the exporter's edges\<close>

lemma str_or_nonempty: "d \<noteq> [] \<Longrightarrow> str_or v d \<noteq> []"
  by (cases v) (simp_all add: str_or_def)

lemma edge_rows_loop_keys:
  "\<forall>e\<in>set acc. ge_fromKuzuId e = None \<and> ge_toKuzuId e = None \<and> str_truthy (ge_connectionType e)
   \<Longrightarrow> \<forall>e\<in>set (edge_rows_loop m rows n acc).
         ge_fromKuzuId e = None \<and> ge_toKuzuId e = None \<and> str_truthy (ge_connectionType e)"
proof (induction rows arbitrary: n acc)
  case Nil
  then show ?case by simp
next
  case (Cons row rows)
  show ?case
  proof (cases "m (row_from_id row) \<noteq> None \<and> m (row_to_id row) \<noteq> None")
    case True
    have "\<forall>e\<in>set (edge_rows_loop m rows (n + 1)
            (acc @ [\<lparr>ge_fromTokenId = Some 0, ge_toTokenId = Some 0,
                      ge_fromIndex = m (row_from_id row), ge_toIndex = m (row_to_id row),
                      ge_connectionType = Some (str_or (row_connection_type row) ''topological''),
                      ge_edgeProperties = Some (get_or (row_properties row) ''{}''),
                      ge_kuzuEdgeId = Some (string_to_bytes32 (''edge_'' @ show_nat n)),
                      ge_bidirectional = Some True, ge_fromKuzuId = None, ge_toKuzuId = None\<rparr>])).
            ge_fromKuzuId e = None \<and> ge_toKuzuId e = None \<and> str_truthy (ge_connectionType e)"
      using Cons.prems by (intro Cons.IH) (auto simp: str_or_nonempty)
    with True show ?thesis by (simp add: Let_def)
  next
    case False
    with Cons.IH [OF Cons.prems, of n] show ?thesis by (auto simp: Let_def)
  qed
qed

lemma validate_edges_exported:
  "\<forall>e\<in>set es. ge_fromKuzuId e = None \<and> ge_toKuzuId e = None \<and> str_truthy (ge_connectionType e)
   \<Longrightarrow> validate_edges es idx errs ids = errs"
  by (induction es arbitrary: idx errs) (simp_all add: edge_errors_def)

lemma get_edges_for_file_keys:
  "\<forall>e\<in>set (get_edges_for_file svc fid m).
     ge_fromKuzuId e = None \<and> ge_toKuzuId e = None \<and> str_truthy (ge_connectionType e)"
proof (cases "connection_execute svc fid")
  case (QueryRaises msg)
  then show ?thesis by (simp add: get_edges_for_file_def)
next
  case (QueryRows rows)
  have "\<forall>e\<in>set (edge_rows_loop m rows 0 []).
          ge_fromKuzuId e = None \<and> ge_toKuzuId e = None \<and> str_truthy (ge_connectionType e)"
    by (rule edge_rows_loop_keys) simp
  with QueryRows show ?thesis by (simp add: get_edges_for_file_def)
qed

text \<open>
  On an edge that carries the key \<open>toKuzuId\<close> the endpoint check works: an identifier
  that no node has is reported under the edge's index and the data is invalid.
\<close>

lemma validate_nodes_ids:
  "snd (validate_nodes ns idx errs ids)
   = ids \<union> {s. s \<noteq> [] \<and> (\<exists>n\<in>set ns. gn_kuzuElementId n = Some s)}"
proof (induction ns arbitrary: idx errs ids)
  case Nil
  then show ?case by simp
next
  case (Cons n ns)
  show ?case
  proof (cases "gn_kuzuElementId n")
    case None
    then show ?thesis by (simp add: Cons.IH)
  next
    case (Some s)
    then show ?thesis by (auto simp: Cons.IH)
  qed
qed

lemma validate_edges_append:
  "validate_edges es idx errs ids
   = errs @ concat (map (\<lambda>(i, e). edge_errors i e ids) (enumerate idx es))"
  by (induction es arbitrary: idx errs) simp_all

lemma validate_edges_reports:
  assumes "i < length es"
    and "m \<in> set (edge_errors (idx + i) (es ! i) ids)"
  shows "m \<in> set (validate_edges es idx errs ids)"
proof -
  have "(idx + i, es ! i) \<in> set (enumerate idx es)"
    using assms(1) by (auto simp: in_set_enumerate_eq)
  with assms(2) show ?thesis
    unfolding validate_edges_append by force
qed

lemma validate_export_data_missing_endpoint:
  assumes "nodes \<noteq> []" and "i < length es"
    and "ge_toKuzuId (es ! i) = Some t" and "t \<noteq> []"
    and "\<forall>n\<in>set nodes. gn_kuzuElementId n \<noteq> Some t"
  shows "''Edge '' @ show_nat i @ '': toKuzuId '' @ quoted t @ '' not found in nodes''
         \<in> set (snd (validate_export_data nodes es))
         \<and> \<not> fst (validate_export_data nodes es)"
proof -
  obtain errs ids where v: "validate_nodes nodes 0 [] {} = (errs, ids)"
    by (cases "validate_nodes nodes 0 [] {}") auto
  have "ids = snd (validate_nodes nodes 0 [] {})" using v by simp
  then have ids: "ids = {s. s \<noteq> [] \<and> (\<exists>n\<in>set nodes. gn_kuzuElementId n = Some s)}"
    by (simp add: validate_nodes_ids)
  with assms(5) have "t \<notin> ids" by auto
  with assms(3,4)
  have "''Edge '' @ show_nat i @ '': toKuzuId '' @ quoted t @ '' not found in nodes''
        \<in> set (edge_errors (0 + i) (es ! i) ids)"
    by (simp add: edge_errors_def Let_def)
  from validate_edges_reports [OF assms(2) this, of errs]
  have m: "''Edge '' @ show_nat i @ '': toKuzuId '' @ quoted t @ '' not found in nodes''
        \<in> set (validate_edges es 0 errs ids)" .
  then have "validate_edges es 0 errs ids \<noteq> []" by auto
  with m assms(1) v show ?thesis
    by (simp add: validate_export_data_def)
qed

text \<open>
  C2 (the code misses the claim). The edges the exporter builds carry \<open>fromIndex\<close> and
  \<open>toIndex\<close> and never the keys \<open>fromKuzuId\<close> and \<open>toKuzuId\<close> that the validator reads, so
  on the exporter's own edges validation reports exactly what it reports without any
  edge; an edge in the exporter's format that points at index 7 of a one-node export
  passes as valid.
\<close>

theorem validate_export_data_exported_edges:
  "validate_export_data nodes (get_edges_for_file svc file_id vertex_id_to_index)
   = validate_export_data nodes []
   \<and> validate_export_data [convert_vertex_to_graph_node sample_space ''file-123''] [dangling_edge]
     = (True, [])"
proof -
  have 1: "validate_export_data nodes (get_edges_for_file svc file_id vertex_id_to_index)
           = validate_export_data nodes []"
    using get_edges_for_file_keys [of svc file_id vertex_id_to_index]
    by (simp add: validate_export_data_def validate_edges_exported split: prod.splits)
  have 2: "validate_export_data [convert_vertex_to_graph_node sample_space ''file-123'']
             [dangling_edge] = (True, [])"
    by code_simp
  from 1 2 show ?thesis by simp
qed

section \<open>Empty exports\<close>













section \<open>The fallback chain\<close>

text \<open>
  C4 (as amended). The third strategy, traditional\_with\_types, makes exactly one
  request to the engine, for the context's file, with dictionary transfer enabled, and
  with the caller's type filter when the caller supplied a non-empty one; the hard-coded
  default set is used only when the caller supplied none.
\<close>

theorem traditional_with_types_request:
  "snd (snd (process_traditional_with_types tp context calls))
   = calls @ [\<lparr>req_path = file_path context,
                req_includeTypes = Some (if include_types context = [] then default_ifc_types
                                         else include_types context),
                req_transferDictionaries = True\<rparr>]"
  by (simp add: process_traditional_with_types_def graph_by_ifc_path_def Let_def
      split: engine_reply.splits option.splits prod.splits)

text \<open>
  The claim as stated has the caller's filter discarded. With the filter IfcWall the
  request carries IfcWall, not the default set.
\<close>

theorem traditional_with_types_request_counterexample:
  "map req_includeTypes
     (snd (snd (process_traditional_with_types raising_engine
                  (new_context ''model.ifc'' wall_config) [])))
   = [Some [''IfcWall'']]
   \<and> [''IfcWall''] \<noteq> default_ifc_types"
  by (simp add: process_traditional_with_types_def graph_by_ifc_path_def Let_def
      raising_engine_def new_context_def start_processing_def wall_config_def default_ifc_types_def)

lemma process_ifc_file_try_success:
  "process_ifc_file_try tp fs path context calls = (Inr (g, res, h), c) \<Longrightarrow> success res"
  by (auto simp: process_ifc_file_try_def Let_def
      split: if_splits prod.splits option.splits sum.splits)

lemma process_ifc_file_raised:
  "process_ifc_file_try tp fs path (new_context path config) calls = (Inl e, c)
   \<Longrightarrow> process_ifc_file_context tp fs path config calls
       = ((empty_graph,
           \<lparr>success = False, message = ''Failed to process IFC file: '' @ error_str e,
            stats = None, error_details = Some (error_str e)\<rparr>,
           None),
          complete_processing (add_error c (error_str e)) False)"
  by (simp add: process_ifc_file_context_def)

text \<open>
  C3 (as amended). When the file is valid and all four strategies fail, the result has
  \<open>success = False\<close>, the message "Failed to process IFC file: All processing methods
  failed" and the error detail "All processing methods failed": a fixed text, whatever
  the per-step messages were. The per-step messages stay in the error list of the
  processing context, which the call does not return.
\<close>

theorem process_ifc_file_all_failed:
  assumes "validate_ifc_file fs path"
    and "fst (process_with_fallbacks tp (new_context path config) calls) = None"
  shows "process_ifc_file tp fs path config calls
         = (empty_graph,
            \<lparr>success = False,
             message = ''Failed to process IFC file: All processing methods failed'',
             stats = None,
             error_details = Some ''All processing methods failed''\<rparr>,
            None)
         \<and> error_messages (snd (process_ifc_file_context tp fs path config calls))
           = error_messages (fst (snd (process_with_fallbacks tp (new_context path config) calls)))
             @ [''All processing methods failed'']"
proof -
  obtain r c k where p: "process_with_fallbacks tp (new_context path config) calls = (r, c, k)"
    by (cases "process_with_fallbacks tp (new_context path config) calls") auto
  with assms(2) have "r = None" by simp
  with p assms(1)
  have "process_ifc_file_try tp fs path (new_context path config) calls
        = (Inl (Exception ''All processing methods failed''), c)"
    by (simp add: process_ifc_file_try_def)
  from process_ifc_file_raised [OF this] p show ?thesis
    by (simp add: process_ifc_file_def complete_processing_def add_error_def)
qed

lemma raising_engine_all_fail:
  "process_with_fallbacks raising_engine (new_context ''model.ifc'' wall_config) []
   = (None,
      (new_context ''model.ifc'' wall_config)
        \<lparr>error_messages := [''direct_with_dictionaries: Graph.ByIFCPath failed with exception: boom'',
                            ''direct_without_dictionaries: boom'',
                            ''traditional_with_types: boom'',
                            ''traditional_fallback: boom''],
         attempted_methods := [''direct_with_dictionaries'', ''direct_without_dictionaries'',
                               ''traditional_with_types'', ''traditional_fallback''],
         current_method := Some ''traditional_fallback''\<rparr>,
      [\<lparr>req_path = ''model.ifc'', req_includeTypes = Some [''IfcWall''], req_transferDictionaries = True\<rparr>,
       \<lparr>req_path = ''model.ifc'', req_includeTypes = Some [''IfcWall''], req_transferDictionaries = False\<rparr>,
       \<lparr>req_path = ''model.ifc'', req_includeTypes = Some [''IfcWall''], req_transferDictionaries = True\<rparr>,
       \<lparr>req_path = ''model.ifc'', req_includeTypes = None, req_transferDictionaries = False\<rparr>])"
  by (simp add: process_with_fallbacks_def process_direct_with_dictionaries_def
      process_direct_without_dictionaries_def process_traditional_with_types_def
      process_traditional_fallback_def graph_by_ifc_path_def raising_engine_def new_context_def
      start_processing_def wall_config_def add_error_def list_or_none_def Let_def)

lemma lower_ifc_suffix: "py_lower ''.IFC'' = ''.ifc''"
  by code_simp

lemma ifc_filesystem_valid: "validate_ifc_file ifc_filesystem ''model.ifc''"
  by (simp add: validate_ifc_file_def ifc_filesystem_def lower_ifc_suffix)

lemma raising_engine_try:
  "fst (process_ifc_file_try raising_engine ifc_filesystem ''model.ifc''
          (new_context ''model.ifc'' wall_config) [])
   = Inl (Exception ''All processing methods failed'')"
  by (simp add: process_ifc_file_try_def ifc_filesystem_valid raising_engine_all_fail)

theorem process_ifc_file_all_failed_witness:
  "process_ifc_file raising_engine ifc_filesystem ''model.ifc'' wall_config []
   = (empty_graph,
      \<lparr>success = False,
       message = ''Failed to process IFC file: All processing methods failed'',
       stats = None,
       error_details = Some ''All processing methods failed''\<rparr>,
      None)
   \<and> error_messages (snd (process_ifc_file_context raising_engine ifc_filesystem ''model.ifc''
                             wall_config []))
     = [''direct_with_dictionaries: Graph.ByIFCPath failed with exception: boom'',
        ''direct_without_dictionaries: boom'',
        ''traditional_with_types: boom'',
        ''traditional_fallback: boom'',
        ''All processing methods failed'']"
  using process_ifc_file_all_failed [OF ifc_filesystem_valid, of raising_engine wall_config "[]"]
  by (simp add: raising_engine_all_fail)

text \<open>
  The claim as stated has every per-step message in the error detail. With the engine
  raising "boom" on each request, the four strategies record their four messages in the
  context, and the detail returned to the caller contains none of them.
\<close>

theorem process_ifc_file_all_failed_counterexample:
  "error_messages (fst (snd (process_with_fallbacks raising_engine
                               (new_context ''model.ifc'' wall_config) [])))
   = [''direct_with_dictionaries: Graph.ByIFCPath failed with exception: boom'',
      ''direct_without_dictionaries: boom'',
      ''traditional_with_types: boom'',
      ''traditional_fallback: boom'']
   \<and> error_details (fst (snd (process_ifc_file raising_engine ifc_filesystem ''model.ifc''
                                 wall_config [])))
     = Some ''All processing methods failed''
   \<and> \<not> str_contains ''direct_with_dictionaries: Graph.ByIFCPath failed with exception: boom''
          ''All processing methods failed''
   \<and> \<not> str_contains ''direct_without_dictionaries: boom'' ''All processing methods failed''
   \<and> \<not> str_contains ''traditional_with_types: boom'' ''All processing methods failed''
   \<and> \<not> str_contains ''traditional_fallback: boom'' ''All processing methods failed''"
proof -
  obtain c where "process_ifc_file_try raising_engine ifc_filesystem ''model.ifc''
          (new_context ''model.ifc'' wall_config) []
        = (Inl (Exception ''All processing methods failed''), c)"
    using raising_engine_try
    by (cases "process_ifc_file_try raising_engine ifc_filesystem ''model.ifc''
          (new_context ''model.ifc'' wall_config) []") auto
  from process_ifc_file_raised [OF this]
  have d: "error_details (fst (snd (process_ifc_file raising_engine ifc_filesystem ''model.ifc''
                                 wall_config [])))
      = Some ''All processing methods failed''"
    by (simp add: process_ifc_file_def)
  show ?thesis
    unfolding d by (simp add: raising_engine_all_fail)
qed

text \<open>
  C10. \<open>process_ifc_file\<close> returns a result on every input: an exception that leaves the
  \<open>try\<close> block becomes a failure result. Whenever the result has \<open>success = False\<close>, the
  graph returned with it has no vertices and no edges and the engine handle is \<open>None\<close>.
\<close>

theorem process_ifc_file_failure:
  "(fst (process_ifc_file_try tp fs path (new_context path config) calls) = Inl e
    \<longrightarrow> process_ifc_file tp fs path config calls
        = (empty_graph,
           \<lparr>success = False, message = ''Failed to process IFC file: '' @ error_str e,
            stats = None, error_details = Some (error_str e)\<rparr>,
           None))
   \<and> (\<not> success (fst (snd (process_ifc_file tp fs path config calls)))
      \<longrightarrow> vertices (fst (process_ifc_file tp fs path config calls)) = []
          \<and> edges (fst (process_ifc_file tp fs path config calls)) = []
          \<and> snd (snd (process_ifc_file tp fs path config calls)) = None)"
proof -
  obtain x c where t: "process_ifc_file_try tp fs path (new_context path config) calls = (x, c)"
    by (cases "process_ifc_file_try tp fs path (new_context path config) calls") auto
  have a: "fst (process_ifc_file_try tp fs path (new_context path config) calls) = Inl e
    \<longrightarrow> process_ifc_file tp fs path config calls
        = (empty_graph,
           \<lparr>success = False, message = ''Failed to process IFC file: '' @ error_str e,
            stats = None, error_details = Some (error_str e)\<rparr>,
           None)"
    using t by (auto simp: process_ifc_file_def dest: process_ifc_file_raised)
  have b: "vertices (fst (process_ifc_file tp fs path config calls)) = []
          \<and> edges (fst (process_ifc_file tp fs path config calls)) = []
          \<and> snd (snd (process_ifc_file tp fs path config calls)) = None"
    if f: "\<not> success (fst (snd (process_ifc_file tp fs path config calls)))"
  proof (cases x)
    case (Inl e')
    with t show ?thesis
      by (simp add: process_ifc_file_def process_ifc_file_context_def empty_graph_def)
  next
    case (Inr r)
    obtain g res h where r: "r = (g, res, h)" by (cases r) auto
    with Inr t have "success res" by (auto dest: process_ifc_file_try_success)
    with Inr r t f show ?thesis
      by (simp add: process_ifc_file_def process_ifc_file_context_def)
  qed
  from a b show ?thesis by blast
qed

theorem process_ifc_file_failure_witness:
  "\<not> success (fst (snd (process_ifc_file raising_engine ifc_filesystem ''model.ifc'' wall_config [])))
   \<and> vertices (fst (process_ifc_file raising_engine ifc_filesystem ''model.ifc'' wall_config [])) = []
   \<and> edges (fst (process_ifc_file raising_engine ifc_filesystem ''model.ifc'' wall_config [])) = []
   \<and> snd (snd (process_ifc_file raising_engine ifc_filesystem ''model.ifc'' wall_config [])) = None"
proof -
  from process_ifc_file_failure
    [of raising_engine ifc_filesystem "''model.ifc''" wall_config "[]"
        "Exception ''All processing methods failed''"] raising_engine_try
  have 1: "process_ifc_file raising_engine ifc_filesystem ''model.ifc'' wall_config []
           = (empty_graph,
              \<lparr>success = False,
               message = ''Failed to process IFC file: '' @ error_str (Exception ''All processing methods failed''),
               stats = None,
               error_details = Some (error_str (Exception ''All processing methods failed''))\<rparr>,
              None)"
    by blast
  then have 2: "\<not> success (fst (snd (process_ifc_file raising_engine ifc_filesystem ''model.ifc'' wall_config [])))"
    by simp
  from process_ifc_file_failure
    [of raising_engine ifc_filesystem "''model.ifc''" wall_config "[]"
        "Exception ''All processing methods failed''"] 2
  show ?thesis by blast
qed

end
